theory Spec2Isabelle
  imports Complex_Main
begin

section \<open>kungpao.detection: kernels, background and detection around SEP\<close>

text \<open>
  The module \<^verbatim>\<open>kungpao/detection.py\<close> prepares arguments for the SEP library:
  a table of convolution kernels, a Gaussian kernel formula, a wrapper of
  \<^verbatim>\<open>sep.Background\<close> and a wrapper of \<^verbatim>\<open>sep.extract\<close>.

  Numbers: Python floats and numpy float arrays are modelled by \<^typ>\<open>real\<close> (no rounding);
  a 2-D array is a list of rows. Python integers are \<^typ>\<open>int\<close>. Exceptions are values
  of \<open>py_error\<close>, returned as \<open>Inl\<close>.
\<close>

subsection \<open>Errors\<close>

datatype py_error =
    Exception string        \<comment> \<open>\<^verbatim>\<open>raise Exception(msg)\<close> of this module\<close>
  | ZeroDivisionError
  | ValueError
  | TypeError
  | IndexError
  | External string         \<comment> \<open>anything raised inside the SEP library, with its message\<close>

type_synonym matrix = "real list list"

subsection \<open>\<^verbatim>\<open>simple_convolution_kernel\<close>\<close>

definition simple_convolution_kernel :: "int \<Rightarrow> py_error + matrix" where
  "simple_convolution_kernel preset =
    (if preset = 1 then
       \<comment> \<open>Tophat_3.0_3x3\<close>
       Inr [[0.560000, 0.980000, 0.560000],
            [0.980000, 1.000000, 0.980000],
            [0.560000, 0.980000, 0.560000]]
     else if preset = 2 then
       \<comment> \<open>Topcat_4.0_5x5\<close>
       Inr [[0.000000, 0.220000, 0.480000, 0.220000, 0.000000],
            [0.220000, 0.990000, 1.000000, 0.990000, 0.220000],
            [0.480000, 1.000000, 1.000000, 1.000000, 0.480000],
            [0.220000, 0.990000, 1.000000, 0.990000, 0.220000],
            [0.000000, 0.220000, 0.480000, 0.220000, 0.000000]]
     else if preset = 3 then
       \<comment> \<open>Topcat_5.0_5x5\<close>
       Inr [[0.150000, 0.770000, 1.000000, 0.770000, 0.150000],
            [0.770000, 1.000000, 1.000000, 1.000000, 0.770000],
            [1.000000, 1.000000, 1.000000, 1.000000, 1.000000],
            [0.770000, 1.000000, 1.000000, 1.000000, 0.770000],
            [0.150000, 0.770000, 1.000000, 0.770000, 0.150000]]
     else if preset = 4 then
       \<comment> \<open>Gaussian_3.0_5x5\<close>
       Inr [[0.092163, 0.221178, 0.296069, 0.221178, 0.092163],
            [0.221178, 0.530797, 0.710525, 0.530797, 0.221178],
            [0.296069, 0.710525, 0.951108, 0.710525, 0.296069],
            [0.221178, 0.530797, 0.710525, 0.530797, 0.221178],
            [0.092163, 0.221178, 0.296069, 0.221178, 0.092163]]
     else if preset = 5 then
       \<comment> \<open>Gaussian_4.0_7x7\<close>
       Inr [[0.047454, 0.109799, 0.181612, 0.214776, 0.181612, 0.109799, 0.047454],
            [0.109799, 0.254053, 0.420215, 0.496950, 0.420215, 0.254053, 0.109799],
            [0.181612, 0.420215, 0.695055, 0.821978, 0.695055, 0.420215, 0.181612],
            [0.214776, 0.496950, 0.821978, 0.972079, 0.821978, 0.496950, 0.214776],
            [0.181612, 0.420215, 0.695055, 0.821978, 0.695055, 0.420215, 0.181612],
            [0.109799, 0.254053, 0.420215, 0.496950, 0.420215, 0.254053, 0.109799],
            [0.047454, 0.109799, 0.181612, 0.214776, 0.181612, 0.109799, 0.047454]]
     else if preset = 6 then
       \<comment> \<open>Gaussian_5.0_9x9\<close>
       Inr [[0.030531, 0.065238, 0.112208, 0.155356, 0.173152, 0.155356, 0.112208, 0.065238, 0.030531],
            [0.065238, 0.139399, 0.239763, 0.331961, 0.369987, 0.331961, 0.239763, 0.139399, 0.065238],
            [0.112208, 0.239763, 0.412386, 0.570963, 0.636368, 0.570963, 0.412386, 0.239763, 0.112208],
            [0.155356, 0.331961, 0.570963, 0.790520, 0.881075, 0.790520, 0.570963, 0.331961, 0.155356],
            [0.173152, 0.369987, 0.636368, 0.881075, 0.982004, 0.881075, 0.636368, 0.369987, 0.173152],
            [0.155356, 0.331961, 0.570963, 0.790520, 0.881075, 0.790520, 0.570963, 0.331961, 0.155356],
            [0.112208, 0.239763, 0.412386, 0.570963, 0.636368, 0.570963, 0.412386, 0.239763, 0.112208],
            [0.065238, 0.139399, 0.239763, 0.331961, 0.369987, 0.331961, 0.239763, 0.139399, 0.065238],
            [0.030531, 0.065238, 0.112208, 0.155356, 0.173152, 0.155356, 0.112208, 0.065238, 0.030531]]
     else Inl (Exception ''### More options will be available in the future''))"


subsection \<open>Shapes and comparison of arrays\<close>

definition shape :: "'a list list \<Rightarrow> nat \<times> nat" where
  \<comment> \<open>\<^verbatim>\<open>ndarray.shape\<close> of a 2-D array given as its list of rows\<close>
  "shape m = (length m, (case m of [] \<Rightarrow> 0 | r # _ \<Rightarrow> length r))"

definition rectangular :: "'a list list \<Rightarrow> bool" where
  "rectangular m = list_all (\<lambda>r. length r = snd (shape m)) m"

definition allclose :: "real \<Rightarrow> matrix \<Rightarrow> matrix \<Rightarrow> bool" where
  \<comment> \<open>same shape, and every pair of corresponding entries differs by at most \<open>tol\<close>\<close>
  "allclose tol a b = list_all2 (list_all2 (\<lambda>x y. \<bar>x - y\<bar> \<le> tol)) a b"

subsection \<open>Python values and numpy primitives\<close>

text \<open>
  \<^verbatim>\<open>sep_detection\<close> inspects the run-time type of its \<^verbatim>\<open>kernel\<close> argument, so the
  argument is a tagged Python value. \<open>PySeq\<close> stands for a list, a tuple or a
  one-dimensional \<^verbatim>\<open>numpy.ndarray\<close>. The items of an \<^verbatim>\<open>ndarray\<close> are numpy scalars,
  \<open>NpInt\<close> or \<open>NpFloat\<close>: a numpy integer is not an instance of \<^verbatim>\<open>int\<close>, and
  dividing a numpy scalar by zero gives \<^verbatim>\<open>inf\<close> or \<^verbatim>\<open>nan\<close> with a warning where
  Python's own numbers raise. A Python \<^verbatim>\<open>bool\<close> is an \<^verbatim>\<open>int\<close> (\<^verbatim>\<open>True == 1\<close>) and is
  covered by \<open>PyInt\<close>.
\<close>

datatype pyval =
    PyInt int
  | PyFloat real
  | PyStr string
  | PySeq "pyval list"
  | PyNone
  | NpInt int               \<comment> \<open>\<^verbatim>\<open>numpy.int64\<close> and the other numpy integers\<close>
  | NpFloat real            \<comment> \<open>\<^verbatim>\<open>numpy.float64\<close> and the other numpy floats\<close>

text \<open>
  A float that may be \<^verbatim>\<open>nan\<close>: the two operations below that are undefined on the
  reals (the square root of a negative number, zero divided by zero) return
  \<^verbatim>\<open>nan\<close> in numpy, here \<open>None\<close>.
\<close>

type_synonym npfloat = "real option"

definition linspace :: "real \<Rightarrow> real \<Rightarrow> int \<Rightarrow> py_error + real list" where
  \<comment> \<open>\<^verbatim>\<open>numpy.linspace(start, stop, num)\<close>: \<open>num\<close> evenly spaced samples, both ends included\<close>
  "linspace start stop num =
     (if num < 0 then Inl ValueError
      else let dv = num - 1; delta = stop - start;
               step = (if dv > 0 then delta / real_of_int dv else delta)
           in Inr (map (\<lambda>i. start + real i * step) [0 ..< nat num]))"

fun diff :: "real list \<Rightarrow> real list" where
  \<comment> \<open>\<^verbatim>\<open>numpy.diff\<close>: \<open>out[i] = a[i+1] - a[i]\<close>\<close>
  "diff (a # b # xs) = (b - a) # diff (b # xs)"
| "diff _ = []"

definition outer :: "real list \<Rightarrow> real list \<Rightarrow> matrix" where
  "outer a b = map (\<lambda>x. map (\<lambda>y. x * y) b) a"

definition np_sqrt :: "real \<Rightarrow> npfloat" where
  "np_sqrt v = (if v < 0 then None else Some (sqrt v))"

definition np_add :: "npfloat \<Rightarrow> npfloat \<Rightarrow> npfloat" where
  "np_add a b = (case (a, b) of (Some x, Some y) \<Rightarrow> Some (x + y) | _ \<Rightarrow> None)"

definition np_sum :: "npfloat list list \<Rightarrow> npfloat" where
  \<comment> \<open>\<^verbatim>\<open>ndarray.sum()\<close> over all entries; one \<^verbatim>\<open>nan\<close> makes the sum \<^verbatim>\<open>nan\<close>\<close>
  "np_sum m = foldr np_add (concat m) (Some 0)"

definition np_divide :: "npfloat \<Rightarrow> npfloat \<Rightarrow> npfloat" where
  \<comment> \<open>\<open>0 / 0\<close> is \<^verbatim>\<open>nan\<close>. A nonzero numerator over zero (numpy's \<^verbatim>\<open>inf\<close>) does not
      occur where this is used: see \<open>kernel_raw_sum_zero\<close>.\<close>
  "np_divide a b =
     (case (a, b) of (Some x, Some y) \<Rightarrow> (if y = 0 then None else Some (x / y)) | _ \<Rightarrow> None)"

subsection \<open>\<^verbatim>\<open>get_gaussian_kernel\<close>\<close>

text \<open>
  \<^verbatim>\<open>scipy.stats.norm.cdf\<close> is the parameter \<open>cdf\<close>. The second argument \<^verbatim>\<open>sig\<close>
  occurs nowhere in the body of the source. An integer size 0 divides by zero in the
  first line; a size below -1 asks \<^verbatim>\<open>numpy.linspace\<close> for a negative number of
  samples (\<^verbatim>\<open>ValueError\<close>); a size that is not an integer fails with a
  \<^verbatim>\<open>TypeError\<close>, in the arithmetic (string, sequence, \<^verbatim>\<open>None\<close>) or in
  \<^verbatim>\<open>numpy.linspace\<close>, whose sample count must be an integer since numpy 1.18
  (a float zero divides by zero before that).

  A numpy integer size behaves as the Python integer of the same value, except 0: the
  interval is \<^verbatim>\<open>inf\<close>, \<^verbatim>\<open>numpy.linspace\<close> returns the one sample \<^verbatim>\<open>nan\<close>, there is
  no difference to take, and the kernel is the empty array. A numpy float size reaches
  \<^verbatim>\<open>numpy.linspace\<close> also when it is zero, and fails there.
\<close>

definition gaussian_kernel_of_int ::
  "(real \<Rightarrow> real) \<Rightarrow> int \<Rightarrow> py_error + npfloat list list" where
  \<comment> \<open>the body of \<^verbatim>\<open>get_gaussian_kernel\<close> for an integer size other than 0\<close>
  "gaussian_kernel_of_int cdf n =
     (let interval = (2 * real_of_int n + 1) / real_of_int n in
      (case linspace (- real_of_int n - interval / 2) (real_of_int n + interval / 2) (n + 1) of
         Inl e \<Rightarrow> Inl e
       | Inr x \<Rightarrow>
           let kern1d = diff (map cdf x);
               kernel_raw = map (map np_sqrt) (outer kern1d kern1d);
               total = np_sum kernel_raw
           in Inr (map (map (\<lambda>v. np_divide v total)) kernel_raw)))"

definition get_gaussian_kernel ::
  "(real \<Rightarrow> real) \<Rightarrow> pyval \<Rightarrow> pyval \<Rightarrow> py_error + npfloat list list" where
  "get_gaussian_kernel cdf sz sig =
     (case sz of
        PyInt n \<Rightarrow> if n = 0 then Inl ZeroDivisionError else gaussian_kernel_of_int cdf n
      | NpInt n \<Rightarrow> if n = 0 then Inr [] else gaussian_kernel_of_int cdf n
      | PyFloat v \<Rightarrow> if v = 0 then Inl ZeroDivisionError else Inl TypeError
      | _ \<Rightarrow> Inl TypeError)"

definition symmetric :: "'a list list \<Rightarrow> bool" where
  \<comment> \<open>equal to its transpose\<close>
  "symmetric m = (transpose m = m)"

subsection \<open>The standard normal distribution function\<close>

text \<open>
  \<^verbatim>\<open>scipy.stats.norm.cdf\<close> computes the distribution function of the standard normal
  law, \<open>1/2 + (1 / sqrt (2 pi)) * integral of exp (- t^2 / 2) from 0 to x\<close>. Integrating the
  exponential series term by term gives the series below, which converges for every \<open>x\<close>.
  It instantiates the parameter \<open>cdf\<close> of \<open>get_gaussian_kernel\<close>.
\<close>

definition norm_cdf_term :: "real \<Rightarrow> nat \<Rightarrow> real" where
  "norm_cdf_term x n = (- 1) ^ n * x ^ (2 * n + 1) / (2 ^ n * fact n * real (2 * n + 1))"

definition std_norm_cdf :: "real \<Rightarrow> real" where
  "std_norm_cdf x = 1 / 2 + (\<Sum>n. norm_cdf_term x n) / sqrt (2 * pi)"

definition norm_cdf_coeff :: "nat \<Rightarrow> real" where
  \<comment> \<open>the same series as a power series in \<open>x\<close>: the even coefficients are zero\<close>
  "norm_cdf_coeff k =
     (if even k then 0
      else (- 1) ^ ((k - 1) div 2) / (2 ^ ((k - 1) div 2) * fact ((k - 1) div 2) * real k))"

subsection \<open>Reference tables of the presets\<close>

text \<open>
  The six tables of the source are invariant under reversing the rows and under
  reversing the columns, so each is determined by its upper left quadrant (middle row
  and middle column included). The reference keeps that quadrant, under the name the
  source's comment gives the table, and unfolds it.
\<close>

definition mirror :: "'a list \<Rightarrow> 'a list" where
  "mirror xs = xs @ rev (butlast xs)"

definition from_quadrant :: "real list list \<Rightarrow> matrix" where
  "from_quadrant q = mirror (map mirror q)"

definition Tophat_3_0_3x3 :: matrix where
  "Tophat_3_0_3x3 = from_quadrant
     [[0.56, 0.98],
      [0.98, 1]]"

definition Topcat_4_0_5x5 :: matrix where
  "Topcat_4_0_5x5 = from_quadrant
     [[0,    0.22, 0.48],
      [0.22, 0.99, 1],
      [0.48, 1,    1]]"

definition Topcat_5_0_5x5 :: matrix where
  "Topcat_5_0_5x5 = from_quadrant
     [[0.15, 0.77, 1],
      [0.77, 1,    1],
      [1,    1,    1]]"

definition Gaussian_3_0_5x5 :: matrix where
  "Gaussian_3_0_5x5 = from_quadrant
     [[0.092163, 0.221178, 0.296069],
      [0.221178, 0.530797, 0.710525],
      [0.296069, 0.710525, 0.951108]]"

definition Gaussian_4_0_7x7 :: matrix where
  "Gaussian_4_0_7x7 = from_quadrant
     [[0.047454, 0.109799, 0.181612, 0.214776],
      [0.109799, 0.254053, 0.420215, 0.496950],
      [0.181612, 0.420215, 0.695055, 0.821978],
      [0.214776, 0.496950, 0.821978, 0.972079]]"

definition Gaussian_5_0_9x9 :: matrix where
  "Gaussian_5_0_9x9 = from_quadrant
     [[0.030531, 0.065238, 0.112208, 0.155356, 0.173152],
      [0.065238, 0.139399, 0.239763, 0.331961, 0.369987],
      [0.112208, 0.239763, 0.412386, 0.570963, 0.636368],
      [0.155356, 0.331961, 0.570963, 0.790520, 0.881075],
      [0.173152, 0.369987, 0.636368, 0.881075, 0.982004]]"

definition reference_table :: "int \<Rightarrow> matrix" where
  "reference_table k =
     (if k = 1 then Tophat_3_0_3x3 else if k = 2 then Topcat_4_0_5x5
      else if k = 3 then Topcat_5_0_5x5 else if k = 4 then Gaussian_3_0_5x5
      else if k = 5 then Gaussian_4_0_7x7 else if k = 6 then Gaussian_5_0_9x9
      else [])"

definition reference_side :: "int \<Rightarrow> nat" where
  \<comment> \<open>side lengths the table names announce: 3x3, 5x5, 5x5, 5x5, 7x7, 9x9\<close>
  "reference_side k = [3, 5, 5, 5, 7, 9] ! nat (k - 1)"

subsection \<open>The libraries behind the module\<close>

text \<open>
  The caller's numpy arrays live in a store, since \<^verbatim>\<open>sep_background\<close> can write into
  the image it is given: an argument that is an array is the address of the array, and
  two arguments may be the same address.

  SEP and scipy are not part of the repository; their entry points are the fields of
  \<open>libs\<close>. \<^verbatim>\<open>sep.Background(img, mask=, bw=, bh=, fw=, fh=, **kw)\<close> and
  \<^verbatim>\<open>sep.extract(img, thresh, err= or var=, filter_kernel=, segmentation_map=, **kw)\<close>
  read their arrays and either raise (\<open>Inl\<close>, with a message) or return.
  \<^verbatim>\<open>sep.extract\<close> returns the objects alone when \<^verbatim>\<open>segmentation_map\<close> is false and
  the pair (objects, map) when it is true; the field returns a pair in both cases, and
  its second component is not looked at when the flag is false.
  \<^verbatim>\<open>bkg.subfrom(img)\<close> overwrites \<^verbatim>\<open>img\<close>; the field gives the new contents.

  The detection threshold is a Python number or, since nothing in \<^verbatim>\<open>sep_detection\<close>
  checks it, an \<^verbatim>\<open>ndarray\<close> of the caller's: \<open>'a thresh\<close> with an address for the
  argument, and with the contents of the array for what \<^verbatim>\<open>sep.extract\<close> receives.
\<close>

type_synonym addr = nat
type_synonym heap = "addr \<Rightarrow> matrix"
type_synonym kwargs = "(string \<times> pyval) list"

datatype 'a thresh =
    Number real             \<comment> \<open>a Python \<^verbatim>\<open>float\<close> or \<^verbatim>\<open>int\<close>: immutable\<close>
  | NdArray 'a              \<comment> \<open>a \<^verbatim>\<open>numpy.ndarray\<close>\<close>

datatype err_arg =
    Err "matrix option"     \<comment> \<open>passed as \<^verbatim>\<open>err=\<close>\<close>
  | Var "matrix option"     \<comment> \<open>passed as \<^verbatim>\<open>var=\<close>\<close>

record ('bkg, 'obj, 'seg) libs =
  norm_cdf :: "real \<Rightarrow> real"
  sep_Background ::
    "matrix \<Rightarrow> bool list list option \<Rightarrow> real \<Rightarrow> real \<Rightarrow> real \<Rightarrow> real \<Rightarrow> kwargs \<Rightarrow> string + 'bkg"
  sep_subfrom :: "'bkg \<Rightarrow> matrix \<Rightarrow> matrix"
  sep_globalrms :: "'bkg \<Rightarrow> real"
  sep_extract ::
    "matrix \<Rightarrow> matrix thresh \<Rightarrow> err_arg \<Rightarrow> npfloat list list \<Rightarrow> bool \<Rightarrow> kwargs \<Rightarrow>
     string + 'obj \<times> 'seg"

definition astype_bool :: "matrix \<Rightarrow> bool list list" where
  \<comment> \<open>\<^verbatim>\<open>mask.astype(bool)\<close>: a new array, true where the entry is not zero\<close>
  "astype_bool m = map (map (\<lambda>v. v \<noteq> 0)) m"

subsection \<open>\<^verbatim>\<open>sep_background\<close>\<close>

text \<open>
  The function returns the background object alone, or the pair of it and the image
  when \<^verbatim>\<open>subtract\<close> is set. The second component of the model's result is the store
  after the call, also when the call raised.
\<close>

datatype 'bkg bkg_ret =
    Bkg 'bkg                \<comment> \<open>\<^verbatim>\<open>return bkg\<close>\<close>
  | BkgImg 'bkg addr        \<comment> \<open>\<^verbatim>\<open>return bkg, img\<close>\<close>

definition sep_background ::
  "('bkg, 'obj, 'seg) libs \<Rightarrow> heap \<Rightarrow> addr \<Rightarrow> addr option \<Rightarrow>
   real option \<Rightarrow> real option \<Rightarrow> real option \<Rightarrow> real option \<Rightarrow> bool \<Rightarrow> real \<Rightarrow> kwargs \<Rightarrow>
   (py_error + 'bkg bkg_ret) \<times> heap" where
  "sep_background L h img mask_arg bw bh fw fh subtract bkgsize_min sep_kwargs =
     (let bw = (case bw of
                  None \<Rightarrow> (let b = real (fst (shape (h img))) / 5
                           in if b \<ge> bkgsize_min then b else bkgsize_min)
                | Some b \<Rightarrow> b);
          bh = (case bh of
                  None \<Rightarrow> (let b = real (fst (shape (h img))) / 5
                           in if b \<ge> bkgsize_min then b else bkgsize_min)
                | Some b \<Rightarrow> b);
          fw = (case fw of None \<Rightarrow> bw / 2 | Some f \<Rightarrow> f);
          fh = (case fh of None \<Rightarrow> bh / 2 | Some f \<Rightarrow> f);
          mask_arr = (case mask_arg of None \<Rightarrow> None | Some a \<Rightarrow> Some (astype_bool (h a)))
      in case sep_Background L (h img) mask_arr bw bh fw fh sep_kwargs of
           Inl e \<Rightarrow> (Inl (External e), h)
         | Inr bkg \<Rightarrow>
             if subtract then (Inr (BkgImg bkg img), h(img := sep_subfrom L bkg (h img)))
             else (Inr (Bkg bkg), h))"

definition spec_default_tile :: "matrix \<Rightarrow> real \<Rightarrow> real" where
  \<comment> \<open>the default tile size in the words of the specification:
      \<^verbatim>\<open>max(image.shape[0] / 5, bkgsize_min)\<close>\<close>
  "spec_default_tile arr bkgsize_min = max (real (fst (shape arr)) / 5) bkgsize_min"

definition bkg_of :: "'bkg bkg_ret \<Rightarrow> 'bkg" where
  \<comment> \<open>the background object of either form of the result\<close>
  "bkg_of r = (case r of Bkg b \<Rightarrow> b | BkgImg b _ \<Rightarrow> b)"

subsection \<open>\<^verbatim>\<open>sep_detection\<close>\<close>

text \<open>
  \<^verbatim>\<open>bkg_kwargs\<close> is the dictionary unpacked into the call of \<^verbatim>\<open>sep_background\<close>: a
  field is \<open>None\<close> when the key is absent, and \<open>kw_sep\<close> holds the keys that are not
  parameters of \<^verbatim>\<open>sep_background\<close>. A dictionary that repeats \<^verbatim>\<open>img\<close> or
  \<^verbatim>\<open>subtract\<close>, which Python refuses with a \<^verbatim>\<open>TypeError\<close> before the call, is
  not a value of the record.

  \<^verbatim>\<open>threshold *= bkg.globalrms\<close> rebinds the local name when the threshold is a
  number, and multiplies the caller's array in place when it is an \<^verbatim>\<open>ndarray\<close>.

  \<^verbatim>\<open>bkg, img = sep_background(..., subtract=True)\<close> unpacks a pair; on a bare
  background object the unpacking would raise \<^verbatim>\<open>TypeError\<close>, and so would the use of a
  pair as a background object in the other branch. Neither happens
  (\<open>sep_background_cases\<close>): the pair is returned exactly when \<^verbatim>\<open>subtract\<close> is set.
\<close>

record bkg_kwargs =
  kw_mask :: "addr option"
  kw_bw :: "real option"
  kw_bh :: "real option"
  kw_fw :: "real option"
  kw_fh :: "real option"
  kw_bkgsize_min :: "real option"
  kw_sep :: kwargs

definition sep_background_kw ::
  "('bkg, 'obj, 'seg) libs \<Rightarrow> heap \<Rightarrow> addr \<Rightarrow> bool \<Rightarrow> bkg_kwargs option \<Rightarrow>
   (py_error + 'bkg bkg_ret) \<times> heap" where
  \<comment> \<open>\<^verbatim>\<open>sep_background(img, subtract=s, **bkg_kwargs)\<close>, or \<^verbatim>\<open>sep_background(img, subtract=s)\<close>\<close>
  "sep_background_kw L h img subtract bkg_kwargs =
     (case bkg_kwargs of
        Some kw \<Rightarrow>
          sep_background L h img (kw_mask kw) (kw_bw kw) (kw_bh kw) (kw_fw kw) (kw_fh kw) subtract
            (case kw_bkgsize_min kw of None \<Rightarrow> 10 | Some b \<Rightarrow> b) (kw_sep kw)
      | None \<Rightarrow> sep_background L h img None None None None None subtract 10 [])"

definition is_int :: "pyval \<Rightarrow> bool" where
  \<comment> \<open>\<^verbatim>\<open>isinstance(v, int)\<close>\<close>
  "is_int v = (case v of PyInt _ \<Rightarrow> True | _ \<Rightarrow> False)"

definition is_seq :: "pyval \<Rightarrow> bool" where
  \<comment> \<open>\<^verbatim>\<open>isinstance(v, (list, tuple, np.ndarray))\<close>\<close>
  "is_seq v = (case v of PySeq _ \<Rightarrow> True | _ \<Rightarrow> False)"

definition resolve_kernel :: "(real \<Rightarrow> real) \<Rightarrow> pyval \<Rightarrow> py_error + npfloat list list" where
  \<comment> \<open>the block ``Determine the kernel used in detection''; \<^verbatim>\<open>kernel[0]\<close> and
      \<^verbatim>\<open>kernel[1]\<close> raise \<^verbatim>\<open>IndexError\<close> on a sequence shorter than two\<close>
  "resolve_kernel cdf kernel_arg =
     (case kernel_arg of
        PyInt k \<Rightarrow>
          (case simple_convolution_kernel k of
             Inl e \<Rightarrow> Inl e
           | Inr m \<Rightarrow> Inr (map (map Some) m))
      | PySeq xs \<Rightarrow>
          (case xs of
             a # b # _ \<Rightarrow> get_gaussian_kernel cdf a b
           | _ \<Rightarrow> Inl IndexError)
      | _ \<Rightarrow> Inl (Exception ''Wrong choice for convolution kernel''))"

definition rescale_threshold ::
  "heap \<Rightarrow> addr thresh \<Rightarrow> addr option \<Rightarrow> real \<Rightarrow> addr thresh \<times> heap" where
  \<comment> \<open>\<^verbatim>\<open>if err is None: threshold *= bkg.globalrms\<close>, with the store after it\<close>
  "rescale_threshold h threshold err globalrms =
     (if err = None then
        (case threshold of
           Number v \<Rightarrow> (Number (v * globalrms), h)
         | NdArray t \<Rightarrow> (NdArray t, h(t := map (map (\<lambda>v. v * globalrms)) (h t))))
      else (threshold, h))"

definition thresh_value :: "heap \<Rightarrow> addr thresh \<Rightarrow> matrix thresh" where
  \<comment> \<open>the threshold as \<^verbatim>\<open>sep.extract\<close> reads it\<close>
  "thresh_value h threshold =
     (case threshold of Number v \<Rightarrow> Number v | NdArray t \<Rightarrow> NdArray (h t))"

datatype ('obj, 'seg, 'bkg) det_ret =
    RetNone                         \<comment> \<open>the end of the function is reached: \<^verbatim>\<open>None\<close>\<close>
  | RetObjSegBkg 'obj 'seg 'bkg     \<comment> \<open>\<^verbatim>\<open>return obj, seg, bkg\<close>\<close>
  | RetResultsBkg 'obj 'bkg         \<comment> \<open>\<^verbatim>\<open>return results, bkg\<close>\<close>

definition returned :: "bool \<Rightarrow> bool \<Rightarrow> 'obj \<times> 'seg \<Rightarrow> 'bkg \<Rightarrow> ('obj, 'seg, 'bkg) det_ret" where
  \<comment> \<open>the last seven lines of \<^verbatim>\<open>sep_detection\<close>\<close>
  "returned return_seg return_bkg results bkg =
     (if return_seg then
        (case results of (obj, seg) \<Rightarrow>
           if return_bkg then RetObjSegBkg obj seg bkg else RetNone)
      else
        if return_bkg then RetResultsBkg (fst results) bkg else RetNone)"

definition sep_detection ::
  "('bkg, 'obj, 'seg) libs \<Rightarrow> heap \<Rightarrow> addr \<Rightarrow> addr thresh \<Rightarrow> pyval \<Rightarrow> addr option \<Rightarrow>
   bool \<Rightarrow> bool \<Rightarrow> bool \<Rightarrow> bool \<Rightarrow> bkg_kwargs option \<Rightarrow> kwargs \<Rightarrow>
   (py_error + ('obj, 'seg, 'bkg) det_ret) \<times> heap" where
  "sep_detection L h img threshold kernel_arg err use_sig subtract_bkg return_bkg return_seg
       bkg_kwargs det_kwargs =
     (case resolve_kernel (norm_cdf L) kernel_arg of
        Inl e \<Rightarrow> (Inl e, h)
      | Inr filter_kernel \<Rightarrow>
          (case (if subtract_bkg then
                   \<comment> \<open>\<^verbatim>\<open>bkg, img = sep_background(img, subtract=True, ...)\<close>\<close>
                   (case sep_background_kw L h img True bkg_kwargs of
                      (Inl e, h1) \<Rightarrow> (Inl e, h1)
                    | (Inr (BkgImg bkg img1), h1) \<Rightarrow> (Inr (bkg, img1), h1)
                    | (Inr (Bkg bkg), h1) \<Rightarrow> (Inl TypeError, h1))
                 else
                   \<comment> \<open>\<^verbatim>\<open>bkg = sep_background(img, subtract=False, ...)\<close>\<close>
                   (case sep_background_kw L h img False bkg_kwargs of
                      (Inl e, h1) \<Rightarrow> (Inl e, h1)
                    | (Inr (Bkg bkg), h1) \<Rightarrow> (Inr (bkg, img), h1)
                    | (Inr (BkgImg bkg img1), h1) \<Rightarrow> (Inl TypeError, h1))) of
             (Inl e, h1) \<Rightarrow> (Inl e, h1)
           | (Inr (bkg, img1), h1) \<Rightarrow>
               (case rescale_threshold h1 threshold err (sep_globalrms L bkg) of
                  (threshold1, h2) \<Rightarrow>
                    let err_array = (case err of None \<Rightarrow> None | Some a \<Rightarrow> Some (h2 a));
                        results =
                          (if use_sig then
                             sep_extract L (h2 img1) (thresh_value h2 threshold1) (Err err_array)
                               filter_kernel return_seg det_kwargs
                           else
                             sep_extract L (h2 img1) (thresh_value h2 threshold1) (Var err_array)
                               filter_kernel return_seg det_kwargs)
                    in (case results of
                          Inl e \<Rightarrow> (Inl (External e), h2)
                        | Inr res \<Rightarrow> (Inr (returned return_seg return_bkg res bkg), h2)))))"

subsection \<open>A stand-in for SEP that records its arguments\<close>

text \<open>
  For evaluating the wrappers on concrete inputs: the background object is the four
  sizes \<open>(bw, bh, fw, fh)\<close> the constructor was called with, subtraction lowers every
  pixel by 1, the global rms is 2, and extraction returns the threshold it was given
  as its objects and the number of rows of the image as its map.
\<close>

definition recording_libs :: "(real \<times> real \<times> real \<times> real, matrix thresh, nat) libs" where
  "recording_libs =
     \<lparr> norm_cdf = std_norm_cdf,
       sep_Background = (\<lambda>img mask bw bh fw fh kw. Inr (bw, bh, fw, fh)),
       sep_subfrom = (\<lambda>bkg img. map (map (\<lambda>v. v - 1)) img),
       sep_globalrms = (\<lambda>bkg. 2),
       sep_extract = (\<lambda>img thresh e fk segmap kw. Inr (thresh, length img)) \<rparr>"

definition square_image :: "nat \<Rightarrow> real \<Rightarrow> matrix" where
  "square_image n v = replicate n (replicate n v)"

section \<open>Properties\<close>

subsection \<open>The standard normal distribution function is strictly increasing\<close>

lemma summable_norm_cdf_term: "summable (norm_cdf_term x)"
proof (rule summable_comparison_test')
  show "summable (\<lambda>n. \<bar>x\<bar> * (inverse (fact n) * (x\<^sup>2 / 2) ^ n))"
    by (intro summable_mult summable_exp)
  fix n :: nat
  have "norm (norm_cdf_term x n) = \<bar>x\<bar> * (inverse (fact n) * (x\<^sup>2 / 2) ^ n) / real (2 * n + 1)"
    by (simp add: norm_cdf_term_def abs_mult power_abs power_mult power_divide divide_simps
        flip: power2_eq_square)
  also have "\<dots> \<le> \<bar>x\<bar> * (inverse (fact n) * (x\<^sup>2 / 2) ^ n)"
  proof -
    have "0 \<le> \<bar>x\<bar> * (inverse (fact n) * (x\<^sup>2 / 2) ^ n)"
      by simp
    moreover have "1 \<le> real (2 * n + 1)"
      by simp
    ultimately show ?thesis
      using divide_left_mono [of 1 "real (2 * n + 1)" "\<bar>x\<bar> * (inverse (fact n) * (x\<^sup>2 / 2) ^ n)"]
      by simp
  qed
  finally show "norm (norm_cdf_term x n) \<le> \<bar>x\<bar> * (inverse (fact n) * (x\<^sup>2 / 2) ^ n)" .
qed


lemma norm_cdf_coeff_sums:
  "(\<lambda>k. norm_cdf_coeff k * x ^ k) sums (\<Sum>n. norm_cdf_term x n)"
proof -
  have "(\<lambda>k. if even k then 0 else norm_cdf_term x ((k - 1) div 2)) sums (\<Sum>n. norm_cdf_term x n)"
    by (rule sums_if') (rule summable_sums [OF summable_norm_cdf_term])
  moreover have "(if even k then 0 else norm_cdf_term x ((k - 1) div 2)) = norm_cdf_coeff k * x ^ k"
    for k
  proof (cases "even k")
    case True
    then show ?thesis by (simp add: norm_cdf_coeff_def)
  next
    case False
    then have "2 * ((k - 1) div 2) + 1 = k"
      by presburger
    with False show ?thesis
      by (simp add: norm_cdf_coeff_def norm_cdf_term_def)
  qed
  ultimately show ?thesis
    by simp
qed

lemma diffs_norm_cdf_coeff:
  "diffs norm_cdf_coeff k = (if even k then (- 1) ^ (k div 2) / (2 ^ (k div 2) * fact (k div 2)) else 0)"
  by (simp add: diffs_def norm_cdf_coeff_def)

lemma diffs_norm_cdf_coeff_sums:
  "(\<lambda>k. diffs norm_cdf_coeff k * x ^ k) sums exp (- (x\<^sup>2 / 2))"
proof -
  let ?f = "\<lambda>n. (- (x\<^sup>2 / 2)) ^ n /\<^sub>R fact n"
  have "(\<lambda>k. if even k then ?f (k div 2) else (\<lambda>_. 0) ((k - 1) div 2)) sums (0 + exp (- (x\<^sup>2 / 2)))"
    by (rule sums_if [OF sums_zero exp_converges])
  moreover have "(if even k then ?f (k div 2) else 0) = diffs norm_cdf_coeff k * x ^ k" for k
  proof (cases "even k")
    case True
    then obtain j where "k = 2 * j" by (elim evenE)
    then show ?thesis
      by (simp add: diffs_norm_cdf_coeff power_mult power_divide power_minus' divide_simps
            power_mult_distrib flip: power2_eq_square)
  next
    case False
    then show ?thesis by (simp add: diffs_norm_cdf_coeff)
  qed
  ultimately show ?thesis
    by simp
qed

lemma DERIV_std_norm_cdf:
  "DERIV std_norm_cdf x :> exp (- (x\<^sup>2 / 2)) / sqrt (2 * pi)"
proof -
  have sm: "summable (\<lambda>k. norm_cdf_coeff k * y ^ k)" for y
    using norm_cdf_coeff_sums [of y] by (rule sums_summable)
  have "DERIV (\<lambda>x. \<Sum>k. norm_cdf_coeff k * x ^ k) x :> (\<Sum>k. diffs norm_cdf_coeff k * x ^ k)"
    by (rule termdiffs_strong_converges_everywhere) (rule sm)
  moreover have "(\<Sum>k. diffs norm_cdf_coeff k * x ^ k) = exp (- (x\<^sup>2 / 2))"
    using diffs_norm_cdf_coeff_sums [of x] by (rule sums_unique [symmetric])
  moreover have "(\<lambda>x. \<Sum>k. norm_cdf_coeff k * x ^ k) = (\<lambda>x. \<Sum>n. norm_cdf_term x n)"
    using norm_cdf_coeff_sums by (auto simp: sums_iff)
  ultimately have "DERIV (\<lambda>x. \<Sum>n. norm_cdf_term x n) x :> exp (- (x\<^sup>2 / 2))"
    by simp
  then have "DERIV (\<lambda>x. 1 / 2 + (\<Sum>n. norm_cdf_term x n) / sqrt (2 * pi)) x
               :> 0 + exp (- (x\<^sup>2 / 2)) / sqrt (2 * pi)"
    by (intro DERIV_add DERIV_const DERIV_cdivide)
  then show ?thesis
    by (simp add: std_norm_cdf_def [abs_def])
qed

lemma strict_mono_std_norm_cdf: "strict_mono std_norm_cdf"
proof (rule strict_monoI)
  fix a b :: real
  assume "a < b"
  then show "std_norm_cdf a < std_norm_cdf b"
  proof (rule DERIV_pos_imp_increasing)
    fix x :: real
    have "0 < exp (- (x\<^sup>2 / 2)) / sqrt (2 * pi)"
      by simp
    then show "\<exists>y. DERIV std_norm_cdf x :> y \<and> 0 < y"
      using DERIV_std_norm_cdf by blast
  qed
qed

subsection \<open>Lists, sums and the numpy primitives\<close>

lemma length_diff: "length (diff xs) = length xs - 1"
  by (induction xs rule: diff.induct) auto

lemma sum_list_diff: "ys \<noteq> [] \<Longrightarrow> sum_list (diff ys) = last ys - hd ys"
  by (induction ys rule: diff.induct) auto

lemma diff_nonneg: "sorted ys \<Longrightarrow> v \<in> set (diff ys) \<Longrightarrow> 0 \<le> v"
  by (induction ys rule: diff.induct) auto

lemma linspace_ok:
  "0 \<le> num \<Longrightarrow> \<exists>x. (linspace a b num :: py_error + real list) = Inr x \<and> length x = nat num"
  by (simp add: linspace_def Let_def)

lemma shape_map_map: "shape (map (map f) m) = shape m"
  by (cases m) (simp_all add: shape_def)

lemma shape_outer: "shape (outer a b) = (length a, if a = [] then 0 else length b)"
  by (cases a) (simp_all add: shape_def outer_def)

lemma rectangular_map_map: "rectangular (map (map f) m) = rectangular m"
  by (cases m) (simp_all add: rectangular_def shape_def list_all_iff)

lemma rectangular_outer: "rectangular (outer a b)"
  by (cases a) (simp_all add: rectangular_def shape_def outer_def list_all_iff)

lemma sum_list_concat_rows: "sum_list (concat m) = (\<Sum>r\<leftarrow>m. sum_list r)"
  by (induction m) simp_all

lemma sum_list_map_divide: "(\<Sum>v\<leftarrow>xs. v / c) = sum_list xs / (c::real)"
  by (induction xs) (simp_all add: add_divide_distrib)

lemma foldr_np_add_Some: "foldr np_add (map Some xs) (Some 0) = Some (sum_list xs)"
  by (induction xs) (simp_all add: np_add_def)

lemma np_sum_Some: "np_sum (map (map Some) m) = Some (sum_list (concat m))"
  by (simp add: np_sum_def map_concat [symmetric] foldr_np_add_Some)

lemma np_sqrt_outer:
  assumes "\<forall>v\<in>set k. 0 \<le> v"
  shows "map (map np_sqrt) (outer k k) = map (map Some) (map (map sqrt) (outer k k))"
  using assms by (auto simp: outer_def np_sqrt_def not_less [symmetric] mult_less_0_iff)

lemma sum_list_concat_outer:
  "sum_list (concat (map (map sqrt) (outer k k))) = (sum_list (map sqrt k))\<^sup>2"
proof -
  have "sum_list (concat (map (map sqrt) (outer k k)))
      = (\<Sum>a\<leftarrow>k. \<Sum>b\<leftarrow>k. sqrt a * sqrt b)"
    by (simp add: outer_def sum_list_concat_rows comp_def real_sqrt_mult)
  also have "\<dots> = (\<Sum>a\<leftarrow>k. sqrt a * sum_list (map sqrt k))"
    by (simp add: sum_list_const_mult)
  also have "\<dots> = sum_list (map sqrt k) * sum_list (map sqrt k)"
    by (simp add: sum_list_mult_const)
  finally show ?thesis
    by (simp add: power2_eq_square)
qed

lemma sum_sqrt_pos:
  assumes "\<forall>v\<in>set k. 0 \<le> (v::real)" and "0 < sum_list k"
  shows "0 < sum_list (map sqrt k)"
proof -
  have nn: "\<And>x. x \<in> set (map sqrt k) \<Longrightarrow> 0 \<le> x"
    using assms(1) by auto
  have "sum_list (map sqrt k) \<noteq> 0"
  proof
    assume "sum_list (map sqrt k) = 0"
    then have "\<forall>x\<in>set (map sqrt k). x = 0"
      using sum_list_nonneg_eq_0_iff [of "map sqrt k"] nn by blast
    then have "\<forall>v\<in>set k. v = 0"
      by simp
    then have "sum_list k = 0"
      by (induction k) auto
    with assms(2) show False by simp
  qed
  moreover have "0 \<le> sum_list (map sqrt k)"
    by (rule sum_list_nonneg) (use nn in auto)
  ultimately show ?thesis by simp
qed

lemma sum_list_concat_divide:
  "sum_list (concat (map (map (\<lambda>v. v / c)) m)) = sum_list (concat m) / (c::real)"
  by (simp add: map_concat [symmetric] sum_list_map_divide)

lemma np_add_eq_Some:
  "np_add a b = Some s \<longleftrightarrow> (\<exists>u t. a = Some u \<and> b = Some t \<and> s = u + t)"
  by (cases a; cases b) (auto simp: np_add_def)

lemma foldr_np_add_sqrt:
  "foldr np_add (map np_sqrt xs) (Some 0) = Some s \<Longrightarrow>
     0 \<le> s \<and> (s = 0 \<longrightarrow> (\<forall>x\<in>set xs. np_sqrt x = Some 0))"
proof (induction xs arbitrary: s)
  case Nil
  then show ?case by simp
next
  case (Cons x xs)
  from Cons.prems obtain u t where
    u: "np_sqrt x = Some u" and t: "foldr np_add (map np_sqrt xs) (Some 0) = Some t"
    and s: "s = u + t"
    by (auto simp: np_add_eq_Some)
  have "0 \<le> u"
    using u by (auto simp: np_sqrt_def split: if_splits)
  with Cons.IH [OF t] s u show ?case
    by auto
qed

lemma kernel_raw_sum_zero:
  assumes "np_sum (map (map np_sqrt) m) = Some 0"
  shows "\<forall>r\<in>set (map (map np_sqrt) m). \<forall>v\<in>set r. v = Some 0"
proof -
  have "foldr np_add (map np_sqrt (concat m)) (Some 0) = Some 0"
    using assms by (simp add: np_sum_def map_concat)
  from foldr_np_add_sqrt [OF this] show ?thesis
    by auto
qed

lemma transpose_symmetric_table:
  assumes "\<And>a b. g a b = g b a"
  shows "transpose (map (\<lambda>a. map (g a) k) k) = map (\<lambda>a. map (g a) k) k"
proof -
  let ?m = "map (\<lambda>a. map (g a) k) k"
  have "transpose ?m = map (\<lambda>i. map (\<lambda>j. ?m ! j ! i) [0..<length ?m]) [0..<length k]"
    by (rule transpose_rectangle) simp_all
  also have "\<dots> = ?m"
    by (rule nth_equalityI) (auto intro!: nth_equalityI simp: assms)
  finally show ?thesis .
qed

lemma sorted_linspace:
  assumes "(linspace a b num :: py_error + real list) = Inr x" and "a \<le> b"
  shows "sorted x"
proof -
  from assms(1) have num: "0 \<le> num"
    by (simp add: linspace_def split: if_splits)
  define c where "c = (if num - 1 > 0 then (b - a) / real_of_int (num - 1) else b - a)"
  have x: "x = map (\<lambda>i. a + real i * c) [0 ..< nat num]"
    using assms(1) num by (simp add: linspace_def Let_def c_def)
  have "0 \<le> c"
    using assms(2) by (simp add: c_def)
  then have "a + real i * c \<le> a + real j * c" if "i \<le> j" for i j
    using that by (simp add: mult_right_mono)
  then show ?thesis
    unfolding x by (simp add: sorted_iff_nth_mono)
qed

lemma linspace_ends:
  assumes "(linspace a b num :: py_error + real list) = Inr x" and "2 \<le> num"
  shows "hd x = a \<and> last x = b \<and> x \<noteq> []"
proof -
  define f where "f = (\<lambda>i. a + real i * ((b - a) / real_of_int (num - 1)))"
  have x: "x = map f [0 ..< nat num]"
    using assms by (simp add: linspace_def Let_def f_def)
  have ne: "[0 ..< nat num] \<noteq> []"
    using assms(2) by simp
  have "hd x = f 0"
    unfolding x using ne by (simp add: hd_map)
  moreover have "last x = f (nat num - 1)"
    unfolding x using ne by (simp add: last_map)
  moreover have "real (nat num - 1) = real_of_int (num - 1)"
    using assms(2) by (simp add: of_nat_diff)
  ultimately show ?thesis
    using assms(2) ne by (simp add: f_def x)
qed


lemma normalised_kernel:
  assumes nn: "\<forall>v\<in>set k. 0 \<le> v" and pos: "0 < sum_list k"
  defines "s \<equiv> (sum_list (map sqrt k))\<^sup>2"
  defines "m \<equiv> map (\<lambda>a. map (\<lambda>b. sqrt (a * b) / s) k) k"
  shows "(let kernel_raw = map (map np_sqrt) (outer k k); total = np_sum kernel_raw
          in map (map (\<lambda>v. np_divide v total)) kernel_raw) = map (map Some) m"
    and "symmetric m"
    and "list_all (list_all (\<lambda>v. 0 \<le> v)) m"
    and "sum_list (concat m) = 1"
proof -
  let ?r = "map (map sqrt) (outer k k)"
  have s_pos: "0 < s"
    using sum_sqrt_pos [OF nn pos] by (simp add: s_def)
  have raw: "map (map np_sqrt) (outer k k) = map (map Some) ?r"
    by (rule np_sqrt_outer [OF nn])
  have total: "np_sum (map (map Some) ?r) = Some s"
    unfolding s_def sum_list_concat_outer [symmetric] by (rule np_sum_Some)
  have m_eq: "m = map (map (\<lambda>v. v / s)) ?r"
    by (simp add: m_def outer_def comp_def)
  show "(let kernel_raw = map (map np_sqrt) (outer k k); total = np_sum kernel_raw
          in map (map (\<lambda>v. np_divide v total)) kernel_raw) = map (map Some) m"
    unfolding raw Let_def total m_eq using s_pos by (simp add: np_divide_def comp_def)
  show "symmetric m"
    unfolding symmetric_def m_def
    by (rule transpose_symmetric_table) (simp add: mult.commute)
  show "list_all (list_all (\<lambda>v. 0 \<le> v)) m"
    using nn s_pos by (auto simp: m_def list_all_iff)
  have "sum_list (concat m) = sum_list (concat ?r) / s"
    unfolding m_eq by (rule sum_list_concat_divide)
  then show "sum_list (concat m) = 1"
    using s_pos by (simp add: sum_list_concat_outer s_def)
qed

lemma kern1d_facts:
  assumes n: "1 \<le> n" and mono: "mono cdf" and strict: "cdf (- 1) < cdf 1"
    and x: "(linspace (- real_of_int n - ((2 * real_of_int n + 1) / real_of_int n) / 2)
               (real_of_int n + ((2 * real_of_int n + 1) / real_of_int n) / 2) (n + 1)
             :: py_error + real list) = Inr x"
  shows "\<forall>v\<in>set (diff (map cdf x)). 0 \<le> v" and "0 < sum_list (diff (map cdf x))"
proof -
  define iv where "iv = (2 * real_of_int n + 1) / real_of_int n"
  let ?a = "- real_of_int n - iv / 2" and ?b = "real_of_int n + iv / 2"
  note x' = x [folded iv_def]
  have iv: "0 < iv"
    using n by (simp add: iv_def)
  have "1 \<le> real_of_int n"
    using n by simp
  then have a: "?a \<le> - 1" and b: "1 \<le> ?b"
    using iv by linarith+
  have "sorted x"
    using sorted_linspace [OF x'] a b by linarith
  then have "sorted (map cdf x)"
    using mono by (simp add: sorted_iff_nth_mono monoD)
  then show "\<forall>v\<in>set (diff (map cdf x)). 0 \<le> v"
    using diff_nonneg by blast
  have ends: "hd x = ?a \<and> last x = ?b \<and> x \<noteq> []"
    using linspace_ends [OF x'] n by simp
  then have "sum_list (diff (map cdf x)) = cdf ?b - cdf ?a"
    by (simp add: sum_list_diff hd_map last_map)
  moreover have "cdf ?a \<le> cdf (- 1)" "cdf 1 \<le> cdf ?b"
    using monoD [OF mono a] monoD [OF mono b] by simp_all
  ultimately show "0 < sum_list (diff (map cdf x))"
    using strict by linarith
qed

lemma std_norm_cdf_0: "std_norm_cdf 0 = 1 / 2"
  by (simp add: std_norm_cdf_def norm_cdf_term_def)

lemma mono_std_norm_cdf: "mono std_norm_cdf"
  by (rule strict_mono_mono) (rule strict_mono_std_norm_cdf)

lemma std_norm_cdf_minus1_less_1: "std_norm_cdf (- 1) < std_norm_cdf 1"
  using strict_mono_std_norm_cdf by (rule strict_monoD) simp

text \<open>
  The normalised kernel, for any distribution function that is non-decreasing and not
  constant on \<open>[-1, 1]\<close>.
\<close>

lemma normalised_gaussian_kernel_for:
  assumes n: "1 \<le> n" and mono: "mono cdf" and strict: "cdf (- 1) < cdf 1"
  shows "\<exists>m. get_gaussian_kernel cdf (PyInt n) sig = (Inr (map (map Some) m) :: py_error + npfloat list list)
             \<and> symmetric m
             \<and> list_all (list_all (\<lambda>v. 0 \<le> v)) m
             \<and> sum_list (concat m) = 1"
proof -
  let ?iv = "(2 * real_of_int n + 1) / real_of_int n"
  obtain x where
    x: "(linspace (- real_of_int n - ?iv / 2) (real_of_int n + ?iv / 2) (n + 1)
          :: py_error + real list) = Inr x"
    using linspace_ok [of "n + 1"] n by force
  define k where "k = diff (map cdf x)"
  note kf = kern1d_facts [OF n mono strict x, folded k_def]
  note nk = normalised_kernel [OF kf]
  have "get_gaussian_kernel cdf (PyInt n) sig
      = (Inr (map (map Some) (map (\<lambda>a. map (\<lambda>b. sqrt (a * b) / (sum_list (map sqrt k))\<^sup>2) k) k))
          :: py_error + npfloat list list)"
    using n x nk(1) by (simp add: get_gaussian_kernel_def gaussian_kernel_of_int_def k_def [symmetric] Let_def)
  then show ?thesis
    using nk(2-4) by blast
qed

subsection \<open>The wrappers of SEP\<close>

lemma clamp_max: "(if x \<ge> c then x else c) = max x c" for x c :: real
  by (auto simp: max_def)

lemma sep_background_defaults:
  "sep_background L h img m None None None None subtract bkgsize_min kw =
   sep_background L h img m
     (Some (spec_default_tile (h img) bkgsize_min)) (Some (spec_default_tile (h img) bkgsize_min))
     (Some (spec_default_tile (h img) bkgsize_min / 2))
     (Some (spec_default_tile (h img) bkgsize_min / 2))
     subtract bkgsize_min kw"
  unfolding sep_background_def Let_def spec_default_tile_def clamp_max by simp

lemma sep_background_explicit:
  "sep_background L h img m (Some bw) (Some bh) (Some fw) (Some fh) subtract bkgsize_min kw =
     (case sep_Background L (h img)
             (case m of None \<Rightarrow> None | Some a \<Rightarrow> Some (astype_bool (h a))) bw bh fw fh kw of
        Inl e \<Rightarrow> (Inl (External e), h)
      | Inr bkg \<Rightarrow>
          if subtract then (Inr (BkgImg bkg img), h(img := sep_subfrom L bkg (h img)))
          else (Inr (Bkg bkg), h))"
  by (simp add: sep_background_def)

lemma shape_square_image: "0 < n \<Longrightarrow> shape (square_image n v) = (n, n)"
  by (cases n) (simp_all add: shape_def square_image_def)

lemma sep_background_cases:
  "sep_background L h img m bw bh fw fh subtract bmin kw = (r, h') \<Longrightarrow>
     (\<exists>e. r = Inl (External e) \<and> h' = h)
     \<or> (\<exists>bkg. \<not> subtract \<and> r = Inr (Bkg bkg) \<and> h' = h)
     \<or> (\<exists>bkg. subtract \<and> r = Inr (BkgImg bkg img) \<and> h' = h(img := sep_subfrom L bkg (h img)))"
  by (auto simp: sep_background_def Let_def split: sum.splits if_splits)

lemma sep_background_kw_cases:
  "sep_background_kw L h img subtract kws = (r, h') \<Longrightarrow>
     (\<exists>e. r = Inl (External e) \<and> h' = h)
     \<or> (\<exists>bkg. \<not> subtract \<and> r = Inr (Bkg bkg) \<and> h' = h)
     \<or> (\<exists>bkg. subtract \<and> r = Inr (BkgImg bkg img) \<and> h' = h(img := sep_subfrom L bkg (h img)))"
  unfolding sep_background_kw_def
  by (cases kws) (auto dest!: sep_background_cases)

lemma simple_convolution_kernel_error:
  "simple_convolution_kernel k = Inl e \<Longrightarrow>
     e = Exception ''### More options will be available in the future''"
  by (simp add: simple_convolution_kernel_def split: if_splits)

lemma get_gaussian_kernel_error:
  "get_gaussian_kernel cdf a b = Inl e \<Longrightarrow> e \<in> {ZeroDivisionError, ValueError, TypeError}"
  by (auto simp: get_gaussian_kernel_def gaussian_kernel_of_int_def linspace_def Let_def
      split: pyval.splits if_splits sum.splits)

lemma resolve_kernel_wrong_iff:
  "resolve_kernel cdf k = Inl (Exception ''Wrong choice for convolution kernel'')
     \<longleftrightarrow> \<not> is_int k \<and> \<not> is_seq k"
proof (cases k)
  case (PyInt i)
  then show ?thesis
    by (auto simp: resolve_kernel_def is_int_def split: sum.splits
        dest: simple_convolution_kernel_error)
next
  case (PySeq xs)
  then show ?thesis
    by (auto simp: resolve_kernel_def is_seq_def split: list.splits
        dest: get_gaussian_kernel_error)
qed (simp_all add: resolve_kernel_def is_int_def is_seq_def)

lemma sep_detection_resolved:
  assumes "resolve_kernel (norm_cdf L) k = Inr fk"
  shows "sep_detection L h img thr k err use_sig subtract_bkg return_bkg return_seg kws dkw =
     (case sep_background_kw L h img subtract_bkg kws of
        (Inl e, h1) \<Rightarrow> (Inl e, h1)
      | (Inr r, h1) \<Rightarrow>
          (case rescale_threshold h1 thr err (sep_globalrms L (bkg_of r)) of
             (thr1, h2) \<Rightarrow>
               (case sep_extract L (h2 img) (thresh_value h2 thr1)
                       (if use_sig then Err (map_option h2 err) else Var (map_option h2 err))
                       fk return_seg dkw of
                  Inl e \<Rightarrow> (Inl (External e), h2)
                | Inr res \<Rightarrow> (Inr (returned return_seg return_bkg res (bkg_of r)), h2))))"
proof -
  obtain r h1 where bk: "sep_background_kw L h img subtract_bkg kws = (r, h1)"
    by (cases "sep_background_kw L h img subtract_bkg kws")
  have opt: "(case err of None \<Rightarrow> None | Some a \<Rightarrow> Some (h2 a)) = map_option h2 err" for h2 :: heap
    by (cases err) simp_all
  from sep_background_kw_cases [OF bk] show ?thesis
    using assms bk
    by (cases subtract_bkg)
       (auto simp: sep_detection_def Let_def bkg_of_def opt split: sum.splits prod.splits)
qed

lemma rescale_threshold_frame:
  assumes "rescale_threshold h thr err g = (thr1, h2)"
  shows "\<forall>a. thr \<noteq> NdArray a \<longrightarrow> h2 a = h a"
    and "(\<exists>v. thr = Number v) \<or> err \<noteq> None \<Longrightarrow> h2 = h"
  using assms by (auto simp: rescale_threshold_def split: if_splits thresh.splits)

lemma rescale_threshold_Number:
  "rescale_threshold h (Number v) err g = (Number (if err = None then v * g else v), h)"
  by (simp add: rescale_threshold_def)

lemma rescale_threshold_NdArray:
  "rescale_threshold h (NdArray t) err g =
     (NdArray t, if err = None then h(t := map (map (\<lambda>v. v * g)) (h t)) else h)"
  by (simp add: rescale_threshold_def)

text \<open>
  The store after \<open>sep_detection\<close> is the store it was given, the store after its call
  of \<open>sep_background\<close>, or that store after the threshold was rescaled.
\<close>

lemma sep_detection_store:
  "snd (sep_detection L h img thr k err use_sig subtract_bkg return_bkg return_seg kws dkw) = h
   \<or> snd (sep_detection L h img thr k err use_sig subtract_bkg return_bkg return_seg kws dkw)
        = snd (sep_background_kw L h img subtract_bkg kws)
   \<or> (\<exists>g. snd (sep_detection L h img thr k err use_sig subtract_bkg return_bkg return_seg kws dkw)
        = snd (rescale_threshold (snd (sep_background_kw L h img subtract_bkg kws)) thr err g))"
proof (cases "resolve_kernel (norm_cdf L) k")
  case (Inl e)
  then show ?thesis by (simp add: sep_detection_def)
next
  case (Inr fk)
  obtain r h1 where bk: "sep_background_kw L h img subtract_bkg kws = (r, h1)"
    by (cases "sep_background_kw L h img subtract_bkg kws")
  show ?thesis
  proof (cases r)
    case (Inl e)
    then show ?thesis
      by (simp add: sep_detection_resolved [OF Inr] bk)
  next
    case r: (Inr b)
    obtain thr1 h2 where rs: "rescale_threshold h1 thr err (sep_globalrms L (bkg_of b)) = (thr1, h2)"
      by (cases "rescale_threshold h1 thr err (sep_globalrms L (bkg_of b))")
    have "snd (sep_detection L h img thr k err use_sig subtract_bkg return_bkg return_seg kws dkw) = h2"
      by (simp add: sep_detection_resolved [OF Inr] bk r rs split: sum.splits)
    moreover have "h2 = snd (rescale_threshold h1 thr err (sep_globalrms L (bkg_of b)))"
      by (simp add: rs)
    ultimately show ?thesis
      by (auto simp: bk)
  qed
qed

lemma resolve_kernel_1:
  "resolve_kernel cdf (PyInt 1) =
     Inr [[Some 0.56, Some 0.98, Some 0.56],
          [Some 0.98, Some 1, Some 0.98],
          [Some 0.56, Some 0.98, Some 0.56]]"
  by (simp add: resolve_kernel_def simple_convolution_kernel_def)

lemma resolve_kernel_numpy_zero: "resolve_kernel cdf (PySeq [NpInt 0, NpInt 1]) = Inr []"
  by (simp add: resolve_kernel_def get_gaussian_kernel_def)

lemma recording_background:
  "sep_background_kw recording_libs (\<lambda>_. [[3, 4]]) 0 False None
     = (Inr (Bkg (10, 10, 5, 5)), (\<lambda>_. [[3, 4]]))"
  by (simp add: sep_background_kw_def sep_background_def recording_libs_def shape_def)

lemma recording_background_array:
  "sep_background_kw recording_libs ((\<lambda>_. [[3, 4]])(1 := [[3]])) 0 False None
     = (Inr (Bkg (10, 10, 5, 5)), (\<lambda>_. [[3, 4]])(1 := [[3]]))"
  by (simp add: sep_background_kw_def sep_background_def recording_libs_def shape_def)

lemma recording_background_pixel:
  "sep_background_kw recording_libs (\<lambda>_. [[3]]) 0 False None
     = (Inr (Bkg (10, 10, 5, 5)), (\<lambda>_. [[3]]))"
  by (simp add: sep_background_kw_def sep_background_def recording_libs_def shape_def)

subsection \<open>The claims\<close>

text \<open>
  Claim C7. \<^verbatim>\<open>simple_convolution_kernel\<close> raises exactly when its integer argument is
  outside 1..6, and what it raises is the module's exception announcing that more
  presets are not yet available; for the ids 1..6 it returns a matrix.
\<close>

theorem simple_convolution_kernel_raises_iff:
  "((\<exists>e. simple_convolution_kernel k = (Inl e :: py_error + matrix)) \<longleftrightarrow> k \<notin> {1..6})
   \<and> ((simple_convolution_kernel k :: py_error + matrix)
          = Inl (Exception ''### More options will be available in the future'')
        \<longleftrightarrow> k \<notin> {1..6})
   \<and> ((\<exists>m. simple_convolution_kernel k = (Inr m :: py_error + matrix)) \<longleftrightarrow> k \<in> {1..6})"
proof (cases "k \<in> {1..6}")
  case True
  then have "k = 1 \<or> k = 2 \<or> k = 3 \<or> k = 4 \<or> k = 5 \<or> k = 6"
    by auto
  then show ?thesis
    by (elim disjE) (simp_all add: simple_convolution_kernel_def)
next
  case False
  then have "k \<noteq> 1" "k \<noteq> 2" "k \<noteq> 3" "k \<noteq> 4" "k \<noteq> 5" "k \<noteq> 6"
    by auto
  with False show ?thesis
    by (simp add: simple_convolution_kernel_def)
qed

theorem simple_convolution_kernel_raises_iff_witness:
  "(simple_convolution_kernel 7 :: py_error + matrix)
      = Inl (Exception ''### More options will be available in the future'')
   \<and> (\<exists>m. simple_convolution_kernel 6 = (Inr m :: py_error + matrix))"
  using simple_convolution_kernel_raises_iff [of 7]
        simple_convolution_kernel_raises_iff [of 6]
  by simp

lemmas reference_defs =
  reference_table_def from_quadrant_def mirror_def Tophat_3_0_3x3_def Topcat_4_0_5x5_def
  Topcat_5_0_5x5_def Gaussian_3_0_5x5_def Gaussian_4_0_7x7_def Gaussian_5_0_9x9_def

lemma allclose_refl: "0 \<le> tol \<Longrightarrow> allclose tol m m"
  by (simp add: allclose_def list_all2_same)

text \<open>
  Claim C5. For each preset id 1..6, \<^verbatim>\<open>simple_convolution_kernel\<close> returns the literal
  table of that preset: it is equal to the reference table (so also element-wise within
  1e-6 of it) and has the side length its name announces (3, 5, 5, 5, 7, 9).
\<close>

theorem simple_convolution_kernel_presets:
  assumes "k \<in> {1..6}"
  shows "\<exists>m. simple_convolution_kernel k = (Inr m :: py_error + matrix)
             \<and> m = reference_table k
             \<and> allclose (1 / 10 ^ 6) m (reference_table k)
             \<and> shape m = (reference_side k, reference_side k)
             \<and> rectangular m"
proof -
  from assms have "k = 1 \<or> k = 2 \<or> k = 3 \<or> k = 4 \<or> k = 5 \<or> k = 6"
    by auto
  then have eq: "simple_convolution_kernel k = (Inr (reference_table k) :: py_error + matrix)"
    by (elim disjE) (simp_all add: simple_convolution_kernel_def reference_defs)
  have sh: "shape (reference_table k) = (reference_side k, reference_side k)"
    using \<open>k = 1 \<or> k = 2 \<or> k = 3 \<or> k = 4 \<or> k = 5 \<or> k = 6\<close>
    by (elim disjE) (simp_all add: reference_defs shape_def reference_side_def)
  have re: "rectangular (reference_table k)"
    using \<open>k = 1 \<or> k = 2 \<or> k = 3 \<or> k = 4 \<or> k = 5 \<or> k = 6\<close>
    by (elim disjE) (simp_all add: reference_defs rectangular_def shape_def)
  show ?thesis
    using eq sh re by (simp add: allclose_refl)
qed

theorem simple_convolution_kernel_presets_witness:
  "(4::int) \<in> {1..6}
   \<and> (simple_convolution_kernel 4 :: py_error + matrix) =
       Inr [[0.092163, 0.221178, 0.296069, 0.221178, 0.092163],
            [0.221178, 0.530797, 0.710525, 0.530797, 0.221178],
            [0.296069, 0.710525, 0.951108, 0.710525, 0.296069],
            [0.221178, 0.530797, 0.710525, 0.530797, 0.221178],
            [0.092163, 0.221178, 0.296069, 0.221178, 0.092163]]
   \<and> shape (reference_table 4) = (5, 5)"
  using simple_convolution_kernel_presets [of 4]
  by (simp add: reference_defs shape_def)

text \<open>
  Claim C1, as stated: for every size \<open>\<ge> 1\<close> the matrix returned by
  \<^verbatim>\<open>get_gaussian_kernel(size, sigma)\<close> has shape \<open>(2*size+1, 2*size+1)\<close>.
  At size 1 the sample axis has two points, their difference is one number, and the
  kernel is 1x1, not 3x3.
\<close>

theorem gaussian_kernel_shape_counterexample:
  "map_sum id shape
     (get_gaussian_kernel std_norm_cdf (PyInt 1) (PyFloat 1) :: py_error + npfloat list list)
     = Inr (1, 1)
   \<and> map_sum id shape
       (get_gaussian_kernel std_norm_cdf (PyInt 1) (PyFloat 1) :: py_error + npfloat list list)
     \<noteq> Inr (2 * 1 + 1, 2 * 1 + 1)"
  by (simp add: get_gaussian_kernel_def gaussian_kernel_of_int_def linspace_def Let_def outer_def shape_def
      numeral_2_eq_2)

text \<open>
  Claim C1, amended: for every integer size \<open>n \<ge> 1\<close> and every \<^verbatim>\<open>sig\<close> the call
  returns a matrix of shape \<open>(n, n)\<close>, all of whose rows have length \<open>n\<close>
  (\<open>n + 1\<close> sample points, \<open>n\<close> differences, their outer product).
\<close>

theorem gaussian_kernel_shape:
  assumes "1 \<le> n"
  shows "\<exists>m. get_gaussian_kernel cdf (PyInt n) sig = (Inr m :: py_error + npfloat list list)
             \<and> shape m = (nat n, nat n) \<and> rectangular m"
proof -
  let ?iv = "(2 * real_of_int n + 1) / real_of_int n"
  from assms obtain x where
    x: "(linspace (- real_of_int n - ?iv / 2) (real_of_int n + ?iv / 2) (n + 1)
          :: py_error + real list) = Inr x"
    and lx: "length x = nat (n + 1)"
    using linspace_ok [of "n + 1"] by force
  define k where "k = diff (map cdf x)"
  have lk: "length k = nat n"
    using lx assms by (simp add: k_def length_diff nat_add_distrib)
  then have "k \<noteq> []"
    using assms by auto
  then show ?thesis
    using assms x lk
    by (simp add: get_gaussian_kernel_def gaussian_kernel_of_int_def Let_def k_def [symmetric] shape_map_map
        shape_outer rectangular_map_map rectangular_outer)
qed

theorem gaussian_kernel_shape_witness:
  "(1::int) \<le> 3
   \<and> map_sum id shape
       (get_gaussian_kernel std_norm_cdf (PyInt 3) (PyFloat 1) :: py_error + npfloat list list)
       = Inr (3, 3)"
  using gaussian_kernel_shape [of 3 std_norm_cdf "PyFloat 1"]
  by auto

text \<open>
  Claim C6. For every integer size \<open>n \<ge> 1\<close> and every \<^verbatim>\<open>sig\<close>, the matrix returned by
  \<^verbatim>\<open>get_gaussian_kernel\<close> (with the standard normal distribution function) holds no
  \<^verbatim>\<open>nan\<close>, is equal to its transpose, has only non-negative entries, and its entries
  sum to 1, so within 1e-9 of 1. The sum is exact because the entries are real numbers
  here; rounding is not part of the model.
\<close>

theorem gaussian_kernel_normalised:
  assumes "1 \<le> n"
  shows "\<exists>m. get_gaussian_kernel std_norm_cdf (PyInt n) sig
               = (Inr (map (map Some) m) :: py_error + npfloat list list)
             \<and> symmetric m
             \<and> list_all (list_all (\<lambda>v. 0 \<le> v)) m
             \<and> sum_list (concat m) = 1
             \<and> \<bar>sum_list (concat m) - 1\<bar> \<le> 1 / 10 ^ 9"
proof -
  obtain m where
    "get_gaussian_kernel std_norm_cdf (PyInt n) sig
       = (Inr (map (map Some) m) :: py_error + npfloat list list)"
    "symmetric m" "list_all (list_all (\<lambda>v. 0 \<le> v)) m" "sum_list (concat m) = 1"
    using normalised_gaussian_kernel_for
            [OF assms mono_std_norm_cdf std_norm_cdf_minus1_less_1, of sig]
    by blast
  then show ?thesis
    by (intro exI [of _ m]) simp
qed

theorem gaussian_kernel_normalised_witness:
  "(1::int) \<le> 2
   \<and> (\<exists>m. get_gaussian_kernel std_norm_cdf (PyInt 2) (PyFloat 1)
              = (Inr (map (map Some) m) :: py_error + npfloat list list)
            \<and> symmetric m
            \<and> list_all (list_all (\<lambda>v. 0 \<le> v)) m
            \<and> \<bar>sum_list (concat m) - 1\<bar> \<le> 1 / 10 ^ 9)"
  using gaussian_kernel_normalised [of 2 "PyFloat 1"]
  by auto

text \<open>
  Claim C10. The result of \<^verbatim>\<open>get_gaussian_kernel\<close> depends on its size argument only:
  any two values of \<^verbatim>\<open>sig\<close> give the same outcome (the same matrix, or the same error).
\<close>

theorem gaussian_kernel_ignores_sig:
  "(get_gaussian_kernel cdf sz sig1 :: py_error + npfloat list list)
     = get_gaussian_kernel cdf sz sig2"
  by (simp add: get_gaussian_kernel_def)

text \<open>
  Claim C3. When \<^verbatim>\<open>bw\<close>, \<^verbatim>\<open>bh\<close>, \<^verbatim>\<open>fw\<close>, \<^verbatim>\<open>fh\<close> are not supplied,
  \<^verbatim>\<open>sep_background\<close> calls \<^verbatim>\<open>sep.Background\<close> with
  \<open>bw = bh = max (shape[0] / 5) bkgsize_min\<close> and \<open>fw = fh = bw / 2\<close>; a call without
  \<^verbatim>\<open>bkgsize_min\<close> uses 10. For a 100x100 image and 10 this is 20 and 10; for a 40x40
  image, one fifth is 8 and the size is 10.
\<close>

theorem sep_background_default_sizes:
  "sep_background L h img m None None None None subtract bkgsize_min kw =
     (case sep_Background L (h img)
             (case m of None \<Rightarrow> None | Some a \<Rightarrow> Some (astype_bool (h a)))
             (spec_default_tile (h img) bkgsize_min) (spec_default_tile (h img) bkgsize_min)
             (spec_default_tile (h img) bkgsize_min / 2) (spec_default_tile (h img) bkgsize_min / 2)
             kw of
        Inl e \<Rightarrow> (Inl (External e), h)
      | Inr bkg \<Rightarrow>
          if subtract then (Inr (BkgImg bkg img), h(img := sep_subfrom L bkg (h img)))
          else (Inr (Bkg bkg), h))
   \<and> sep_background_kw L h img subtract None =
       sep_background L h img None None None None None subtract 10 []
   \<and> (shape arr = (100, 100) \<longrightarrow>
        spec_default_tile arr 10 = 20 \<and> spec_default_tile arr 10 / 2 = 10)
   \<and> (shape arr = (40, 40) \<longrightarrow>
        spec_default_tile arr 10 = 10 \<and> real (fst (shape arr)) / 5 = 8)"
  by (simp add: sep_background_defaults sep_background_explicit spec_default_tile_def
      sep_background_kw_def)

theorem sep_background_default_sizes_witness:
  "shape (square_image 100 7) = (100, 100)
   \<and> sep_background recording_libs (\<lambda>_. square_image 100 7) 0 None None None None None False 10 []
       = (Inr (Bkg (20, 20, 10, 10)), (\<lambda>_. square_image 100 7))
   \<and> shape (square_image 40 7) = (40, 40)
   \<and> sep_background recording_libs (\<lambda>_. square_image 40 7) 0 None None None None None False 10 []
       = (Inr (Bkg (10, 10, 5, 5)), (\<lambda>_. square_image 40 7))"
  using sep_background_default_sizes
          [where L = recording_libs and h = "\<lambda>_. square_image 100 7" and img = 0 and m = None
             and subtract = False and bkgsize_min = 10 and kw = "[]"
             and arr = "square_image 100 7"]
        sep_background_default_sizes
          [where L = recording_libs and h = "\<lambda>_. square_image 40 7" and img = 0 and m = None
             and subtract = False and bkgsize_min = 10 and kw = "[]"
             and arr = "square_image 40 7"]
  by (simp add: shape_square_image recording_libs_def)

text \<open>
  Claim C4. Once the kernel is resolved and the background estimated, \<^verbatim>\<open>sep.extract\<close>
  is called with the caller's threshold times \<^verbatim>\<open>bkg.globalrms\<close> when \<^verbatim>\<open>err\<close> is
  \<^verbatim>\<open>None\<close>, and with the caller's threshold itself when \<^verbatim>\<open>err\<close> is supplied. This
  holds for a threshold that is a number and, entry by entry, for one that is an array
  (which is then rescaled in the caller's store).
\<close>

theorem sep_detection_threshold:
  assumes "resolve_kernel (norm_cdf L) k = Inr fk"
    and "sep_background_kw L h img subtract_bkg kws = (Inr r, h1)"
  shows "sep_detection L h img (Number thr) k err use_sig subtract_bkg return_bkg return_seg kws dkw =
     (case sep_extract L (h1 img)
             (Number (if err = None then thr * sep_globalrms L (bkg_of r) else thr))
             (if use_sig then Err (map_option h1 err) else Var (map_option h1 err))
             fk return_seg dkw of
        Inl e \<Rightarrow> (Inl (External e), h1)
      | Inr res \<Rightarrow> (Inr (returned return_seg return_bkg res (bkg_of r)), h1))
   \<and> sep_detection L h img (NdArray t) k err use_sig subtract_bkg return_bkg return_seg kws dkw =
     (let h2 = (if err = None
                then h1(t := map (map (\<lambda>v. v * sep_globalrms L (bkg_of r))) (h1 t)) else h1)
      in case sep_extract L (h2 img) (NdArray (h2 t))
                (if use_sig then Err (map_option h2 err) else Var (map_option h2 err))
                fk return_seg dkw of
           Inl e \<Rightarrow> (Inl (External e), h2)
         | Inr res \<Rightarrow> (Inr (returned return_seg return_bkg res (bkg_of r)), h2))"
  by (simp add: sep_detection_resolved [OF assms(1)] assms(2) rescale_threshold_Number
      rescale_threshold_NdArray thresh_value_def Let_def)

theorem sep_detection_threshold_witness:
  "sep_detection recording_libs (\<lambda>_. [[3, 4]]) 0 (Number 3) (PyInt 1) None True False True True None []
     = (Inr (RetObjSegBkg (Number 6) 1 (10, 10, 5, 5)), (\<lambda>_. [[3, 4]]))
   \<and> sep_detection recording_libs (\<lambda>_. [[3, 4]]) 0 (Number 3) (PyInt 1) (Some 1) True False True True
         None []
     = (Inr (RetObjSegBkg (Number 3) 1 (10, 10, 5, 5)), (\<lambda>_. [[3, 4]]))
   \<and> sep_detection recording_libs ((\<lambda>_. [[3, 4]])(1 := [[3]])) 0 (NdArray 1) (PyInt 1) None True False
         True True None []
     = (Inr (RetObjSegBkg (NdArray [[6]]) 1 (10, 10, 5, 5)), (\<lambda>_. [[3, 4]])(1 := [[6]]))"
  using sep_detection_threshold
          [OF resolve_kernel_1 recording_background, of 3 None True True True "[]"]
        sep_detection_threshold
          [OF resolve_kernel_1 recording_background, of 3 "Some 1" True True True "[]"]
        sep_detection_threshold
          [OF resolve_kernel_1 recording_background_array, of 3 None True True True "[]" 1]
  by (simp add: recording_libs_def returned_def bkg_of_def)

text \<open>
  Claim C2 says that each of the four combinations of \<^verbatim>\<open>return_seg\<close> and
  \<^verbatim>\<open>return_bkg\<close> returns a tuple holding the extraction result. With
  \<^verbatim>\<open>return_bkg=False\<close> the function reaches its end without a \<^verbatim>\<open>return\<close> and
  yields \<^verbatim>\<open>None\<close>, whether a segmentation map was asked for or not; with
  \<^verbatim>\<open>return_bkg=True\<close> it returns \<open>(obj, seg, bkg)\<close> or \<open>(results, bkg)\<close>.
\<close>

theorem sep_detection_without_bkg_returns_none:
  "sep_detection recording_libs (\<lambda>_. [[3, 4]]) 0 (Number 3) (PyInt 1) None True False False True None []
     = (Inr RetNone, (\<lambda>_. [[3, 4]]))
   \<and> sep_detection recording_libs (\<lambda>_. [[3, 4]]) 0 (Number 3) (PyInt 1) None True False False False
         None []
     = (Inr RetNone, (\<lambda>_. [[3, 4]]))
   \<and> sep_detection recording_libs (\<lambda>_. [[3, 4]]) 0 (Number 3) (PyInt 1) None True False True True None []
     = (Inr (RetObjSegBkg (Number 6) 1 (10, 10, 5, 5)), (\<lambda>_. [[3, 4]]))
   \<and> sep_detection recording_libs (\<lambda>_. [[3, 4]]) 0 (Number 3) (PyInt 1) None True False True False None []
     = (Inr (RetResultsBkg (Number 6) (10, 10, 5, 5)), (\<lambda>_. [[3, 4]]))"
  unfolding sep_detection_resolved [OF resolve_kernel_1] recording_background
  by (simp add: recording_libs_def returned_def bkg_of_def rescale_threshold_Number
      thresh_value_def)

text \<open>
  Claim C8. \<^verbatim>\<open>sep_detection\<close> raises its ``Wrong choice for convolution kernel''
  exception exactly when the kernel argument is neither an \<^verbatim>\<open>int\<close> nor a list, tuple or
  array. An integer goes to \<^verbatim>\<open>simple_convolution_kernel\<close>, a sequence \<open>[a, b]\<close> to
  \<^verbatim>\<open>get_gaussian_kernel(a, b)\<close>, and an error of either is what \<^verbatim>\<open>sep_detection\<close>
  raises, the store untouched.
\<close>

theorem wrong_kernel_type_iff:
  "(fst (sep_detection L h img thr k err use_sig subtract_bkg return_bkg return_seg kws dkw)
        = Inl (Exception ''Wrong choice for convolution kernel'')
      \<longleftrightarrow> \<not> is_int k \<and> \<not> is_seq k)
   \<and> resolve_kernel cdf (PyInt i) =
       (case simple_convolution_kernel i of Inl e \<Rightarrow> Inl e | Inr m \<Rightarrow> Inr (map (map Some) m))
   \<and> resolve_kernel cdf (PySeq [a, b]) = get_gaussian_kernel cdf a b
   \<and> (\<forall>e. resolve_kernel (norm_cdf L) k = Inl e \<longrightarrow>
         sep_detection L h img thr k err use_sig subtract_bkg return_bkg return_seg kws dkw
           = (Inl e, h))"
proof -
  have wrong: "fst (sep_detection L h img thr k err use_sig subtract_bkg return_bkg return_seg kws dkw)
        = Inl (Exception ''Wrong choice for convolution kernel'')
      \<longleftrightarrow> \<not> is_int k \<and> \<not> is_seq k"
  proof (cases "resolve_kernel (norm_cdf L) k")
    case (Inl e)
    then have "fst (sep_detection L h img thr k err use_sig subtract_bkg return_bkg return_seg kws dkw)
        = Inl e"
      by (simp add: sep_detection_def)
    then show ?thesis
      using resolve_kernel_wrong_iff [of "norm_cdf L" k] Inl by auto
  next
    case (Inr fk)
    obtain r h1 where bk: "sep_background_kw L h img subtract_bkg kws = (r, h1)"
      by (cases "sep_background_kw L h img subtract_bkg kws")
    have "fst (sep_detection L h img thr k err use_sig subtract_bkg return_bkg return_seg kws dkw)
        \<noteq> Inl (Exception ''Wrong choice for convolution kernel'')"
      using sep_background_kw_cases [OF bk]
      by (auto simp: sep_detection_resolved [OF Inr] bk split: sum.splits prod.splits)
    then show ?thesis
      using resolve_kernel_wrong_iff [of "norm_cdf L" k] Inr by auto
  qed
  show ?thesis
    using wrong by (simp add: resolve_kernel_def sep_detection_def)
qed

theorem wrong_kernel_type_iff_witness:
  "sep_detection recording_libs (\<lambda>_. [[3, 4]]) 0 (Number 3) (PyStr ''gauss'') None True True True True
       None []
     = (Inl (Exception ''Wrong choice for convolution kernel''), (\<lambda>_. [[3, 4]]))
   \<and> \<not> is_int (PyStr ''gauss'') \<and> \<not> is_seq (PyStr ''gauss'')
   \<and> is_int (PyInt 7)
   \<and> sep_detection recording_libs (\<lambda>_. [[3, 4]]) 0 (Number 3) (PyInt 7) None True True True True
         None []
     = (Inl (Exception ''### More options will be available in the future''), (\<lambda>_. [[3, 4]]))"
  using wrong_kernel_type_iff
          [where L = recording_libs and h = "\<lambda>_. [[3, 4]]" and img = 0 and thr = "Number 3"
             and k = "PyStr ''gauss''" and err = None and use_sig = True and subtract_bkg = True
             and return_bkg = True and return_seg = True and kws = None and dkw = "[]"]
        wrong_kernel_type_iff
          [where L = recording_libs and h = "\<lambda>_. [[3, 4]]" and img = 0 and thr = "Number 3"
             and k = "PyInt 7" and err = None and use_sig = True and subtract_bkg = True
             and return_bkg = True and return_seg = True and kws = None and dkw = "[]"]
  by (simp add: is_int_def is_seq_def resolve_kernel_def simple_convolution_kernel_def)

text \<open>
  Claim C9, as stated: the caller's image is mutated only when \<^verbatim>\<open>subtract=True\<close> (or
  \<^verbatim>\<open>subtract_bkg=True\<close>), and no other operation in the module mutates caller-owned
  state. With \<^verbatim>\<open>subtract_bkg=False\<close> and no \<^verbatim>\<open>err\<close>, \<^verbatim>\<open>sep_detection\<close> given an
  array as threshold multiplies that array in place: the one-pixel threshold 3 at
  address 1 holds 6 after the call. When the caller passes one array as image and as
  threshold, the image itself is changed, without any subtraction.
\<close>

theorem image_mutated_only_under_subtract_counterexample:
  "snd (sep_detection recording_libs ((\<lambda>_. [[3, 4]])(1 := [[3]])) 0 (NdArray 1) (PyInt 1) None
          True False True True None []) 1 = [[6]]
   \<and> snd (sep_detection recording_libs ((\<lambda>_. [[3, 4]])(1 := [[3]])) 0 (NdArray 1) (PyInt 1) None
          True False True True None [])
       \<noteq> (\<lambda>_. [[3, 4]])(1 := [[3]])
   \<and> snd (sep_detection recording_libs (\<lambda>_. [[3]]) 0 (NdArray 0) (PyInt 1) None
          True False True True None []) 0 = [[6]]"
proof -
  have "sep_detection recording_libs ((\<lambda>_. [[3, 4]])(1 := [[3]])) 0 (NdArray 1) (PyInt 1) None
          True False True True None []
      = (Inr (RetObjSegBkg (NdArray [[6]]) 1 (10, 10, 5, 5)), (\<lambda>_. [[3, 4]])(1 := [[6]]))"
    unfolding sep_detection_resolved [OF resolve_kernel_1] recording_background_array
    by (simp add: recording_libs_def returned_def bkg_of_def rescale_threshold_NdArray
        thresh_value_def)
  moreover have "sep_detection recording_libs (\<lambda>_. [[3]]) 0 (NdArray 0) (PyInt 1) None
          True False True True None []
      = (Inr (RetObjSegBkg (NdArray [[6]]) 1 (10, 10, 5, 5)), (\<lambda>_. [[3]])(0 := [[6]]))"
    unfolding sep_detection_resolved [OF resolve_kernel_1] recording_background_pixel
    by (simp add: recording_libs_def returned_def bkg_of_def rescale_threshold_NdArray
        thresh_value_def)
  moreover have "(\<lambda>_. [[3, 4]])(1 := [[6::real]]) \<noteq> (\<lambda>_::addr. [[3, 4]])(1 := [[3]])"
    by (auto simp: fun_eq_iff)
  ultimately show ?thesis
    by simp
qed

text \<open>
  Claim C9, amended. With \<^verbatim>\<open>subtract=False\<close>, \<^verbatim>\<open>sep_background\<close> leaves the whole
  store as it was and returns the background object alone. With \<^verbatim>\<open>subtract=True\<close> it
  changes no array but the image, changes nothing when \<^verbatim>\<open>sep.Background\<close> raises, and
  otherwise returns the pair of the background object and the image, whose contents are
  now the result of \<^verbatim>\<open>bkg.subfrom\<close>. \<^verbatim>\<open>sep_detection\<close> called with a number as
  threshold, or with \<^verbatim>\<open>err\<close> supplied, leaves the store as it was when
  \<^verbatim>\<open>subtract_bkg=False\<close> and never changes an array other than the image. Whatever the
  threshold, it changes no array other than the image and an array passed as threshold,
  and with \<^verbatim>\<open>subtract_bkg=False\<close> no array other than one passed as threshold. The two
  kernel functions take no array and have no store to change.
\<close>

theorem image_mutated_only_under_subtract:
  "(\<not> subtract \<longrightarrow>
      snd (sep_background L h img m bw bh fw fh subtract bmin kw) = h
      \<and> (\<forall>r. fst (sep_background L h img m bw bh fw fh subtract bmin kw) = Inr r
               \<longrightarrow> (\<exists>bkg. r = Bkg bkg)))
   \<and> (subtract \<longrightarrow>
      (\<forall>a. a \<noteq> img \<longrightarrow> snd (sep_background L h img m bw bh fw fh subtract bmin kw) a = h a)
      \<and> (\<forall>e. fst (sep_background L h img m bw bh fw fh subtract bmin kw) = Inl e
               \<longrightarrow> snd (sep_background L h img m bw bh fw fh subtract bmin kw) = h)
      \<and> (\<forall>r. fst (sep_background L h img m bw bh fw fh subtract bmin kw) = Inr r
               \<longrightarrow> (\<exists>bkg. r = BkgImg bkg img
                          \<and> snd (sep_background L h img m bw bh fw fh subtract bmin kw)
                              = h(img := sep_subfrom L bkg (h img)))))
   \<and> ((\<exists>v. thr = Number v) \<or> err \<noteq> None \<longrightarrow>
      (\<not> subtract_bkg \<longrightarrow>
         snd (sep_detection L h img thr k err use_sig subtract_bkg return_bkg return_seg kws dkw) = h)
      \<and> (\<forall>a. a \<noteq> img \<longrightarrow>
         snd (sep_detection L h img thr k err use_sig subtract_bkg return_bkg return_seg kws dkw) a
           = h a))
   \<and> (\<forall>a. a \<noteq> img \<longrightarrow> thr \<noteq> NdArray a \<longrightarrow>
      snd (sep_detection L h img thr k err use_sig subtract_bkg return_bkg return_seg kws dkw) a
        = h a)
   \<and> (\<not> subtract_bkg \<longrightarrow>
      (\<forall>a. thr \<noteq> NdArray a \<longrightarrow>
         snd (sep_detection L h img thr k err use_sig subtract_bkg return_bkg return_seg kws dkw) a
           = h a))"
proof -
  define det where
    "det = snd (sep_detection L h img thr k err use_sig subtract_bkg return_bkg return_seg kws dkw)"
  obtain r h' where sb: "sep_background L h img m bw bh fw fh subtract bmin kw = (r, h')"
    by (cases "sep_background L h img m bw bh fw fh subtract bmin kw")
  obtain r2 h2 where kw: "sep_background_kw L h img subtract_bkg kws = (r2, h2)"
    by (cases "sep_background_kw L h img subtract_bkg kws")
  have bg: "(\<not> subtract \<longrightarrow> h' = h \<and> (\<forall>x. r = Inr x \<longrightarrow> (\<exists>bkg. x = Bkg bkg)))
        \<and> (subtract \<longrightarrow> (\<forall>a. a \<noteq> img \<longrightarrow> h' a = h a)
              \<and> (\<forall>e. r = Inl e \<longrightarrow> h' = h)
              \<and> (\<forall>x. r = Inr x \<longrightarrow>
                    (\<exists>bkg. x = BkgImg bkg img \<and> h' = h(img := sep_subfrom L bkg (h img)))))"
    using sep_background_cases [OF sb] by auto
  have kw_still: "\<not> subtract_bkg \<longrightarrow> h2 = h"
    and kw_frame: "\<forall>a. a \<noteq> img \<longrightarrow> h2 a = h a"
    using sep_background_kw_cases [OF kw] by auto
  from sep_detection_store [of L h img thr k err use_sig subtract_bkg return_bkg return_seg kws dkw]
  consider "det = h" | "det = h2" | g where "det = snd (rescale_threshold h2 thr err g)"
    unfolding det_def by (auto simp: kw)
  then have det: "((\<exists>v. thr = Number v) \<or> err \<noteq> None \<longrightarrow>
        (\<not> subtract_bkg \<longrightarrow> det = h) \<and> (\<forall>a. a \<noteq> img \<longrightarrow> det a = h a))
      \<and> (\<forall>a. a \<noteq> img \<longrightarrow> thr \<noteq> NdArray a \<longrightarrow> det a = h a)
      \<and> (\<not> subtract_bkg \<longrightarrow> (\<forall>a. thr \<noteq> NdArray a \<longrightarrow> det a = h a))"
  proof cases
    case 1
    then show ?thesis by simp
  next
    case 2
    then show ?thesis using kw_still kw_frame by simp
  next
    case 3
    obtain thr1 h3 where rs: "rescale_threshold h2 thr err g = (thr1, h3)"
      by (cases "rescale_threshold h2 thr err g")
    from rescale_threshold_frame [OF rs] 3 rs
    have "\<forall>a. thr \<noteq> NdArray a \<longrightarrow> det a = h2 a"
      and "(\<exists>v. thr = Number v) \<or> err \<noteq> None \<Longrightarrow> det = h2"
      by simp_all
    then show ?thesis using kw_still kw_frame by metis
  qed
  have fs: "r = fst (sep_background L h img m bw bh fw fh subtract bmin kw)"
    "h' = snd (sep_background L h img m bw bh fw fh subtract bmin kw)"
    by (simp_all add: sb)
  show ?thesis
    using bg det unfolding fs det_def by blast
qed

theorem image_mutated_only_under_subtract_witness:
  "sep_background recording_libs (\<lambda>_. [[3, 4]]) 0 None None None None None True 10 []
     = (Inr (BkgImg (10, 10, 5, 5) 0), (\<lambda>_. [[3, 4]])(0 := [[2, 3]]))
   \<and> sep_background recording_libs (\<lambda>_. [[3, 4]]) 0 None None None None None False 10 []
     = (Inr (Bkg (10, 10, 5, 5)), (\<lambda>_. [[3, 4]]))
   \<and> snd (sep_detection recording_libs (\<lambda>_. [[3, 4]]) 0 (Number 3) (PyInt 1) None True False True True
            None [])
     = (\<lambda>_. [[3, 4]])
   \<and> snd (sep_detection recording_libs (\<lambda>_. [[3, 4]]) 0 (Number 3) (PyInt 1) None True True True True
            None []) 1
     = [[3, 4]]
   \<and> snd (sep_detection recording_libs (\<lambda>_. [[3, 4]]) 0 (NdArray 1) (PyInt 1) None True False True True
            None []) 0
     = [[3, 4]]
   \<and> snd (sep_detection recording_libs (\<lambda>_. [[3, 4]]) 0 (NdArray 1) (PyInt 1) (Some 2) True False
            True True None [])
     = (\<lambda>_. [[3, 4]])"
  using image_mutated_only_under_subtract
          [where L = recording_libs and h = "\<lambda>_. [[3, 4]]" and img = 0 and m = None
             and bw = None and bh = None and fw = None and fh = None and subtract = True
             and bmin = 10 and kw = "[]" and subtract_bkg = False and thr = "Number 3"
             and k = "PyInt 1" and err = None and use_sig = True and return_bkg = True
             and return_seg = True and kws = None and dkw = "[]"]
        image_mutated_only_under_subtract
          [where L = recording_libs and h = "\<lambda>_. [[3, 4]]" and img = 0 and m = None
             and bw = None and bh = None and fw = None and fh = None and subtract = False
             and bmin = 10 and kw = "[]" and subtract_bkg = True and thr = "Number 3"
             and k = "PyInt 1" and err = None and use_sig = True and return_bkg = True
             and return_seg = True and kws = None and dkw = "[]"]
        image_mutated_only_under_subtract
          [where L = recording_libs and h = "\<lambda>_. [[3, 4]]" and img = 0 and m = None
             and bw = None and bh = None and fw = None and fh = None and subtract = False
             and bmin = 10 and kw = "[]" and subtract_bkg = False and thr = "NdArray 1"
             and k = "PyInt 1" and err = None and use_sig = True and return_bkg = True
             and return_seg = True and kws = None and dkw = "[]"]
        image_mutated_only_under_subtract
          [where L = recording_libs and h = "\<lambda>_. [[3, 4]]" and img = 0 and m = None
             and bw = None and bh = None and fw = None and fh = None and subtract = False
             and bmin = 10 and kw = "[]" and subtract_bkg = False and thr = "NdArray 1"
             and k = "PyInt 1" and err = "Some 2" and use_sig = True and return_bkg = True
             and return_seg = True and kws = None and dkw = "[]"]
  by (simp add: sep_background_def recording_libs_def shape_def)

end
